theory Spec2Isabelle
  imports Complex_Main "HOL-Library.AList" "HOL-Library.Sublist"
begin

section \<open>Exceptions\<close>

text \<open>
  Every exception that the modelled code or the library calls it makes can raise is a value;
  a function that can raise returns \<open>error + 'a\<close> with \<open>Inl\<close> for the exception.
\<close>

datatype error =
    ValueError
  | ZeroDivisionError
  | RuntimeError
  | AssertionError
  | IndexError
  | AttributeError
  | NotImplementedError string

section \<open>Tensors and padded batches\<close>

text \<open>
  A tensor is modelled by its shape and its element type; the element values are not
  modelled. Each library operator used by \<open>backbone.py\<close> is modelled by the argument checks
  it performs and by the shape and element type of its result.
\<close>

datatype dtype = torch_float32 | torch_bool | torch_int64

record Tensor =
  shape :: "nat list"
  dtype :: dtype

text \<open>
  Modelled from the spec: \<open>util.misc.NestedTensor\<close> is not among the sources. The spec's
  padded-batch value pairs a dense tensor with a validity mask; the mask may be absent
  (\<open>None\<close>), which the type parameter \<open>'m\<close> leaves to the caller: code that only hands the
  mask on works for every \<open>'m\<close>, code that resizes it uses \<open>Tensor option\<close>.
\<close>

record 'm NestedTensor =
  tensors :: Tensor
  mask :: 'm

definition numel :: "Tensor \<Rightarrow> nat" where
  "numel x = prod_list (shape x)"

subsection \<open>\<open>math.ceil(a / b)\<close>\<close>

text \<open>
  \<open>a / b\<close> is Python's true division and raises on \<open>b = 0\<close>. For operands below \<open>2^53\<close>,
  as tensor sizes are, the float quotient rounds to an integer only when the exact quotient
  is one, so \<open>math.ceil\<close> of it is the exact ceiling.
\<close>

definition ceil_div :: "int \<Rightarrow> int \<Rightarrow> error + int" where
  "ceil_div a b = (if b = 0 then Inl ZeroDivisionError else Inr (- ((- a) div b)))"

subsection \<open>\<open>F.pad\<close> with a 4-tuple (constant mode)\<close>

text \<open>
  One dimension of size \<open>n\<close> padded by \<open>lo\<close> before and \<open>hi\<close> after. A negative amount
  crops (a \<open>narrow\<close>, which must stay inside the dimension); a result size below zero is
  rejected. (Library versions that also reject a result size of zero differ only on inputs
  on which the \<open>unfold\<close> that follows fails for every kernel of at least 1.)
\<close>

definition pad_dim :: "nat \<Rightarrow> int \<Rightarrow> int \<Rightarrow> error + nat" where
  "pad_dim n lo hi =
     (if lo < 0 \<and> int n + lo < 0 then Inl RuntimeError
      else if hi < 0 \<and> int n + min lo 0 + hi < 0 then Inl RuntimeError
      else if int n + lo + hi < 0 then Inl RuntimeError
      else Inr (nat (int n + lo + hi)))"

text \<open>
  \<open>F.pad(x, (left, right, top, bottom))\<close>: the first pair pads the last dimension, the
  second pair the dimension before it; the tensor needs at least two dimensions.
\<close>

definition F_pad :: "Tensor \<Rightarrow> int \<times> int \<times> int \<times> int \<Rightarrow> error + Tensor" where
  "F_pad x p =
     (case p of (pad_left, pad_right, pad_top, pad_bottom) \<Rightarrow>
       (let s = shape x; n = length s in
        if n < 2 then Inl RuntimeError
        else
          (case pad_dim (s ! (n - 1)) pad_left pad_right of
             Inl e \<Rightarrow> Inl e
           | Inr last_size \<Rightarrow>
               (case pad_dim (s ! (n - 2)) pad_top pad_bottom of
                  Inl e \<Rightarrow> Inl e
                | Inr before_size \<Rightarrow>
                    Inr (x\<lparr>shape := s[n - 1 := last_size, n - 2 := before_size]\<rparr>)))))"

subsection \<open>\<open>Tensor.unfold(dimension, size, step)\<close>\<close>

text \<open>
  All windows of \<open>size\<close> elements taken every \<open>step\<close> elements along \<open>dimension\<close>: that
  dimension shrinks to the number of windows and a new last dimension of \<open>size\<close> is added.
\<close>

definition unfold :: "Tensor \<Rightarrow> nat \<Rightarrow> int \<Rightarrow> int \<Rightarrow> error + Tensor" where
  "unfold x d wsize step =
     (let s = shape x in
      if length s \<le> d then Inl IndexError
      else if int (s ! d) < wsize then Inl RuntimeError
      else if step \<le> 0 then Inl RuntimeError
      else if wsize < 0 then Inl RuntimeError
      else Inr (x\<lparr>shape := s[d := nat ((int (s ! d) - wsize) div step + 1)] @ [nat wsize]\<rparr>))"

subsection \<open>\<open>Tensor.permute\<close>, \<open>contiguous\<close>, \<open>view\<close>\<close>

definition permute :: "Tensor \<Rightarrow> nat list \<Rightarrow> error + Tensor" where
  "permute x dims =
     (let s = shape x in
      if length dims = length s \<and> distinct dims \<and> (\<forall>i \<in> set dims. i < length s)
      then Inr (x\<lparr>shape := map (\<lambda>i. s ! i) dims\<rparr>)
      else Inl RuntimeError)"

definition contiguous :: "Tensor \<Rightarrow> Tensor" where
  "contiguous x = x"

text \<open>
  \<open>view\<close> of a contiguous tensor. At most one requested size may be \<open>-1\<close>; it is inferred
  from the number of elements, which the other sizes must divide, and it cannot be inferred
  when their product is zero. Without \<open>-1\<close> the product must be the number of elements.
\<close>

definition view :: "Tensor \<Rightarrow> int list \<Rightarrow> error + Tensor" where
  "view x sizes =
     (let inferred = filter (\<lambda>v. v = - 1) sizes;
          given = filter (\<lambda>v. v \<noteq> - 1) sizes;
          newsize = prod_list given
      in
      if 1 < length inferred then Inl RuntimeError
      else if \<exists>v \<in> set given. v < 0 then Inl RuntimeError
      else if inferred = [] then
        (if int (numel x) = newsize then Inr (x\<lparr>shape := map nat sizes\<rparr>) else Inl RuntimeError)
      else if 0 < newsize \<and> int (numel x) mod newsize = 0 then
        Inr (x\<lparr>shape := map (\<lambda>v. if v = - 1 then nat (int (numel x) div newsize) else nat v) sizes\<rparr>)
      else Inl RuntimeError)"

section \<open>The identity variant: \<open>NoBackbone\<close>\<close>

text \<open>\<open>nn.Identity\<close> returns its argument, whatever it is.\<close>

definition nn_Identity :: "'a \<Rightarrow> 'a" where
  "nn_Identity x = x"

record NoBackbone =
  nb_num_channels :: int

definition NoBackbone_init :: NoBackbone where
  "NoBackbone_init = \<lparr>nb_num_channels = 3\<rparr>"

definition NoBackbone_forward :: "NoBackbone \<Rightarrow> 'a \<Rightarrow> 'a" where
  "NoBackbone_forward self tensor_list = (let output = nn_Identity tensor_list in output)"

section \<open>The patch backbone\<close>

text \<open>
  \<open>extract_image_patches(x, kernel, stride, dilation)\<close>, statement by statement: the
  unpacking of \<open>x.shape\<close> raises unless there are four sizes; the two padding amounts are
  computed from the height and from the width; \<open>F.pad\<close> receives the amount computed from
  the height first and the one computed from the width second; both \<open>unfold\<close> calls take
  \<open>kernel\<close> and \<open>stride\<close>. The parameter \<open>kernel\<close> is written \<open>ksize\<close>.
\<close>

definition extract_image_patches :: "Tensor \<Rightarrow> int \<Rightarrow> int \<Rightarrow> int \<Rightarrow> error + Tensor" where
  "extract_image_patches x ksize stride dilation =
     (case shape x of
        [b, c, h, w] \<Rightarrow>
          (case ceil_div (int h) stride of
             Inl e \<Rightarrow> Inl e
           | Inr h2 \<Rightarrow>
          (case ceil_div (int w) stride of
             Inl e \<Rightarrow> Inl e
           | Inr w2 \<Rightarrow>
          (let pad_row = (h2 - 1) * stride + (ksize - 1) * dilation + 1 - int h;
               pad_col = (w2 - 1) * stride + (ksize - 1) * dilation + 1 - int w
           in
          (case F_pad x (pad_row div 2, pad_row - pad_row div 2,
                         pad_col div 2, pad_col - pad_col div 2) of
             Inl e \<Rightarrow> Inl e
           | Inr x1 \<Rightarrow>
          (case unfold x1 2 ksize stride of
             Inl e \<Rightarrow> Inl e
           | Inr p1 \<Rightarrow>
          (case unfold p1 3 ksize stride of
             Inl e \<Rightarrow> Inl e
           | Inr p2 \<Rightarrow>
          (case permute p2 [0, 4, 5, 1, 2, 3] of
             Inl e \<Rightarrow> Inl e
           | Inr p3 \<Rightarrow>
          (let patches = contiguous p3; n = length (shape patches) in
           view patches [int b, - 1, int (shape patches ! (n - 2)),
                         int (shape patches ! (n - 1))]))))))))
      | _ \<Rightarrow> Inl ValueError)"

record PatchBackbone =
  pb_kernel :: int
  pb_num_channels :: int
  pb_stride :: int
  pb_dilation :: int

definition PatchBackbone_init :: "int \<Rightarrow> int \<Rightarrow> int \<Rightarrow> PatchBackbone" where
  "PatchBackbone_init ksize stride dilation =
     \<lparr>pb_kernel = ksize, pb_num_channels = (ksize ^ 2) * 3,
      pb_stride = stride, pb_dilation = dilation\<rparr>"

definition PatchBackbone_forward ::
  "PatchBackbone \<Rightarrow> 'm NestedTensor \<Rightarrow> error + 'm NestedTensor" where
  "PatchBackbone_forward self tensor_list =
     (case extract_image_patches (tensors tensor_list)
             (pb_kernel self) (pb_stride self) (pb_dilation self) of
        Inl e \<Rightarrow> Inl e
      | Inr x \<Rightarrow> Inr \<lparr>tensors = x, mask = mask tensor_list\<rparr>)"

text \<open>
  Names for two sub-expressions of \<open>extract_image_patches\<close>, used to state what it
  returns: the padding amount it computes from a size \<open>n\<close> (\<open>pad_row\<close> from the height,
  \<open>pad_col\<close> from the width), and the number of windows \<open>unfold\<close> finds in a padded size.
\<close>

definition pad_amount :: "nat \<Rightarrow> int \<Rightarrow> int \<Rightarrow> int \<Rightarrow> int" where
  "pad_amount n ksize stride dilation =
     (- ((- int n) div stride) - 1) * stride + (ksize - 1) * dilation + 1 - int n"

definition windows :: "int \<Rightarrow> int \<Rightarrow> int \<Rightarrow> nat" where
  "windows n ksize stride = nat ((n - ksize) div stride + 1)"

section \<open>The base feature-extraction wrapper: \<open>BackboneBase\<close>\<close>

text \<open>
  A wrapped network: its named parameters, each with its \<open>requires_grad\<close> flag, in the
  order of \<open>named_parameters()\<close>, and the network itself, which stays opaque.
\<close>

record 'n Module =
  named_parameters :: "(string \<times> bool) list"
  net :: 'n

text \<open>
  \<open>torchvision\<close>'s \<open>IntermediateLayerGetter(backbone, return_layers)\<close> is a library class: it
  is a parameter \<open>getter\<close> of the constructor. It may reject the network, or give the
  callable \<open>body\<close>, which maps an input tensor to an ordered dictionary of feature maps.
\<close>

type_synonym body_fn = "Tensor \<Rightarrow> error + (string \<times> Tensor) list"

record 'n BackboneBase =
  body :: body_fn
  bb_num_channels :: int
  bb_backbone :: "'n Module"

definition default_layers_used :: "string set" where
  "default_layers_used = {''layer1'', ''layer2'', ''layer3'', ''layer4''}"

text \<open>\<open>layer in name\<close> on strings is the test for a contiguous substring.\<close>

definition freeze_parameter :: "bool \<Rightarrow> string set \<Rightarrow> string \<times> bool \<Rightarrow> string \<times> bool" where
  "freeze_parameter train_backbone layers_used np =
     (case np of (name, requires_grad) \<Rightarrow>
        if \<not> train_backbone \<or> \<not> (\<exists>layer \<in> layers_used. sublist layer name)
        then (name, False)
        else (name, requires_grad))"

definition BackboneBase_init ::
  "('n Module \<Rightarrow> (string \<times> string) list \<Rightarrow> error + body_fn) \<Rightarrow>
   'n Module \<Rightarrow> bool \<Rightarrow> int \<Rightarrow> bool \<Rightarrow> string set option \<Rightarrow> error + 'n BackboneBase" where
  "BackboneBase_init getter backbone train_backbone num_channels return_interm_layers layers_used_opt =
     (let layers_used = (case layers_used_opt of None \<Rightarrow> default_layers_used | Some l \<Rightarrow> l);
          backbone1 = backbone\<lparr>named_parameters :=
                        map (freeze_parameter train_backbone layers_used) (named_parameters backbone)\<rparr>;
          return_layers =
            (if return_interm_layers
             then [(''layer1'', ''0''), (''layer2'', ''1''), (''layer3'', ''2''), (''layer4'', ''3'')]
             else [(''layer4'', ''0'')])
      in
      (case getter backbone1 return_layers of
         Inl e \<Rightarrow> Inl e
       | Inr b \<Rightarrow> Inr \<lparr>body = b, bb_num_channels = num_channels, bb_backbone = backbone1\<rparr>))"

subsection \<open>The tensor operators of \<open>forward\<close>\<close>

text \<open>\<open>m[None]\<close> adds a first dimension of size one.\<close>

definition index_None :: "Tensor \<Rightarrow> Tensor" where
  "index_None m = m\<lparr>shape := 1 # shape m\<rparr>"

definition to_dtype :: "Tensor \<Rightarrow> dtype \<Rightarrow> Tensor" where
  "to_dtype x d = x\<lparr>dtype := d\<rparr>"

definition float :: "Tensor \<Rightarrow> Tensor" where
  "float x = to_dtype x torch_float32"

text \<open>\<open>x.shape[-2:]\<close>: the last two sizes, or all of them when there are fewer.\<close>

definition last_two :: "'a list \<Rightarrow> 'a list" where
  "last_two s = drop (length s - 2) s"

text \<open>
  \<open>F.interpolate(input, size=...)\<close> in its default mode \<open>nearest\<close>: \<open>size\<close> must give one
  size for each dimension after the first two; inputs of 3, 4 or 5 dimensions are supported;
  the kernel takes floating-point input, no empty dimension after the first, and positive
  output sizes. The result keeps the first two sizes and takes the others from \<open>size\<close>.
\<close>

definition F_interpolate :: "Tensor \<Rightarrow> nat list \<Rightarrow> error + Tensor" where
  "F_interpolate input osize =
     (let s = shape input; n = length s in
      if int (length osize) \<noteq> int n - 2 then Inl ValueError
      else if n \<noteq> 3 \<and> n \<noteq> 4 \<and> n \<noteq> 5 then
        Inl (NotImplementedError ''Input Error: Only 3D, 4D and 5D input Tensors supported'')
      else if dtype input \<noteq> torch_float32 then Inl RuntimeError
      else if 0 \<in> set (tl s) \<or> 0 \<in> set osize then Inl RuntimeError
      else Inr (input\<lparr>shape := take 2 s @ osize\<rparr>))"

text \<open>\<open>x[0]\<close> selects along the first dimension, which must exist and not be empty.\<close>

definition index_0 :: "Tensor \<Rightarrow> error + Tensor" where
  "index_0 x =
     (case shape x of
        [] \<Rightarrow> Inl IndexError
      | n # rest \<Rightarrow> if n = 0 then Inl IndexError else Inr (x\<lparr>shape := rest\<rparr>))"

subsection \<open>\<open>BackboneBase.forward\<close>\<close>

text \<open>
  The loop over \<open>xs.items()\<close>, with the dictionary \<open>out\<close> as accumulator; \<open>out[name] = v\<close>
  replaces the value of a key that is present and appends a new key otherwise.
\<close>

fun forward_loop ::
  "Tensor option \<Rightarrow> (string \<times> Tensor) list \<Rightarrow> (string \<times> Tensor option NestedTensor) list \<Rightarrow>
   error + (string \<times> Tensor option NestedTensor) list" where
  "forward_loop m_opt [] out = Inr out"
| "forward_loop m_opt ((name, x) # xs) out =
     (case m_opt of
        None \<Rightarrow> Inl AssertionError
      | Some m \<Rightarrow>
          (case F_interpolate (float (index_None m)) (last_two (shape x)) of
             Inl e \<Rightarrow> Inl e
           | Inr r \<Rightarrow>
               (case index_0 (to_dtype r torch_bool) of
                  Inl e \<Rightarrow> Inl e
                | Inr mask1 \<Rightarrow>
                    forward_loop m_opt xs
                      (AList.update name \<lparr>tensors = x, mask = Some mask1\<rparr> out))))"

definition BackboneBase_forward ::
  "'n BackboneBase \<Rightarrow> Tensor option NestedTensor \<Rightarrow>
   error + (string \<times> Tensor option NestedTensor) list" where
  "BackboneBase_forward self tensor_list =
     (case body self (tensors tensor_list) of
        Inl e \<Rightarrow> Inl e
      | Inr xs \<Rightarrow> forward_loop (mask tensor_list) xs [])"

section \<open>The pretrained variant, the single-layer selector and the composition\<close>

text \<open>
  \<open>getattr(torchvision.models, name)\<close> raises \<open>AttributeError\<close> for a name the catalog does
  not have; a constructor it has is called with \<open>replace_stride_with_dilation\<close> and
  \<open>pretrained\<close> and may itself raise. The catalog \<open>models\<close> and the process-rank test
  \<open>is_main_process\<close> are parameters, as are the library class \<open>IntermediateLayerGetter\<close>,
  the repository's \<open>build_position_encoding\<close> (its module is not among the sources) and
  Python's \<open>int\<close> on strings.
\<close>

record args =
  args_model :: string
  args_backbone :: string
  args_lr_backbone :: real
  args_masks :: bool
  args_dilation :: bool
  args_patch_kernel :: int
  args_patch_stride :: int
  args_patch_dilation :: int
  args_interm_layer :: "string option"

record ('n, 'p) env =
  torchvision_models :: "string \<Rightarrow> (bool list \<Rightarrow> bool \<Rightarrow> error + 'n Module) option"
  is_main_process :: bool
  IntermediateLayerGetter :: "'n Module \<Rightarrow> (string \<times> string) list \<Rightarrow> error + body_fn"
  build_position_encoding :: "args \<Rightarrow> error + 'p"
  py_int :: "string \<Rightarrow> error + int"

definition Backbone_init ::
  "('n, 'p) env \<Rightarrow> string \<Rightarrow> bool \<Rightarrow> bool \<Rightarrow> bool \<Rightarrow> string set option \<Rightarrow>
   error + 'n BackboneBase" where
  "Backbone_init E name train_backbone return_interm_layers dilation layers_used =
     (case torchvision_models E name of
        None \<Rightarrow> Inl AttributeError
      | Some constructor \<Rightarrow>
          (case constructor [False, False, dilation] (is_main_process E) of
             Inl e \<Rightarrow> Inl e
           | Inr backbone \<Rightarrow>
               (let num_channels = (if name \<in> {''resnet18'', ''resnet34''} then 512 else 2048)
                in BackboneBase_init (IntermediateLayerGetter E) backbone train_backbone
                     num_channels return_interm_layers layers_used)))"

text \<open>Python list indexing: a negative index counts from the end; out of range raises.\<close>

definition list_index :: "'a list \<Rightarrow> int \<Rightarrow> error + 'a" where
  "list_index xs i =
     (if 0 \<le> i \<and> i < int (length xs) then Inr (xs ! nat i)
      else if i < 0 \<and> - int (length xs) \<le> i then Inr (xs ! nat (int (length xs) + i))
      else Inl IndexError)"

record 'n IntermediateLayerGetterBackbone =
  ilgb_layer :: string
  ilgb_num_channels :: int
  ilgb_backbone :: "'n BackboneBase"

definition IntermediateLayerGetterBackbone_init ::
  "('n, 'p) env \<Rightarrow> string option \<Rightarrow> 'n BackboneBase \<Rightarrow>
   error + 'n IntermediateLayerGetterBackbone" where
  "IntermediateLayerGetterBackbone_init E layer backbone =
     (case (case layer of
              None \<Rightarrow> Inr (bb_num_channels backbone)
            | Some l \<Rightarrow>
                (case py_int E l of
                   Inl e \<Rightarrow> Inl e
                 | Inr i \<Rightarrow> list_index [256, 512, 1024, 2048] i)) of
        Inl e \<Rightarrow> Inl e
      | Inr num_channels \<Rightarrow>
          Inr \<lparr>ilgb_layer = (case layer of None \<Rightarrow> ''0'' | Some l \<Rightarrow> l),
               ilgb_num_channels = num_channels,
               ilgb_backbone = backbone\<rparr>)"

record ('n, 'p) Joiner =
  joiner_backbone :: "'n BackboneBase"
  joiner_position_embedding :: 'p
  joiner_num_channels :: int

section \<open>The construction entry point: \<open>build_backbone\<close>\<close>

datatype ('n, 'p) backbone_model =
    JoinerModel "('n, 'p) Joiner"
  | NoBackboneModel NoBackbone
  | PatchBackboneModel PatchBackbone
  | IntermediateLayerGetterBackboneModel "'n IntermediateLayerGetterBackbone"

text \<open>The decimal numeral of a natural number, as \<open>f'{i}'\<close> prints a non-negative \<open>i\<close>.\<close>

fun str_nat :: "nat \<Rightarrow> string" where
  "str_nat n =
     (if n < 10 then [char_of (48 + n)]
      else str_nat (n div 10) @ [char_of (48 + n mod 10)])"

text \<open>\<open>bool(s)\<close> for \<open>s\<close> a string or \<open>None\<close>: false for \<open>None\<close> and for the empty string.\<close>

definition py_bool :: "string option \<Rightarrow> bool" where
  "py_bool s = (case s of None \<Rightarrow> False | Some v \<Rightarrow> v \<noteq> [])"

definition build_backbone :: "('n, 'p) env \<Rightarrow> args \<Rightarrow> error + ('n, 'p) backbone_model" where
  "build_backbone E a =
     (if args_model a = ''detr'' then
        (let train_backbone = (args_lr_backbone a > 0);
             return_interm_layers = args_masks a
         in
         (case Backbone_init E (args_backbone a) train_backbone return_interm_layers
                 (args_dilation a) None of
            Inl e \<Rightarrow> Inl e
          | Inr backbone \<Rightarrow>
              (case build_position_encoding E a of
                 Inl e \<Rightarrow> Inl e
               | Inr position_embedding \<Rightarrow>
                   Inr (JoinerModel
                          \<lparr>joiner_backbone = backbone,
                           joiner_position_embedding = position_embedding,
                           joiner_num_channels = bb_num_channels backbone\<rparr>))))
      else if args_backbone a = ''n/a'' then
        Inr (NoBackboneModel (NoBackbone_init\<lparr>nb_num_channels := 3\<rparr>))
      else if args_backbone a = ''patch'' then
        Inr (PatchBackboneModel
               (PatchBackbone_init (args_patch_kernel a) (args_patch_stride a)
                  (args_patch_dilation a)))
      else if args_backbone a = ''resnet50'' then
        (let train_backbone = (args_lr_backbone a > 0);
             return_interm_layers = py_bool (args_interm_layer a)
         in
         (case (case args_interm_layer a of
                  None \<Rightarrow> Inr None
                | Some l \<Rightarrow>
                    if return_interm_layers
                    then (case py_int E l of
                            Inl e \<Rightarrow> Inl e
                          | Inr i \<Rightarrow>
                              Inr (Some (set (map (\<lambda>j. ''layer'' @ str_nat (nat j)) [1..i + 1]))))
                    else Inr None) of
            Inl e \<Rightarrow> Inl e
          | Inr layers_used \<Rightarrow>
              (case Backbone_init E (args_backbone a) train_backbone return_interm_layers
                      (args_dilation a) layers_used of
                 Inl e \<Rightarrow> Inl e
               | Inr backbone \<Rightarrow>
                   (case IntermediateLayerGetterBackbone_init E (args_interm_layer a) backbone of
                      Inl e \<Rightarrow> Inl e
                    | Inr m \<Rightarrow> Inr (IntermediateLayerGetterBackboneModel m)))))
      else Inl (NotImplementedError (''Backbone '' @ args_backbone a @ '' not implemented'')))"

section \<open>The frozen normalization layer: restoring its state\<close>

text \<open>
  \<open>FrozenBatchNorm2d(n)\<close> registers four buffers of \<open>n\<close> elements; it has no parameters
  and no submodules.
\<close>

record FrozenBatchNorm2d =
  buffers :: "(string \<times> Tensor) list"

definition FrozenBatchNorm2d_init :: "nat \<Rightarrow> FrozenBatchNorm2d" where
  "FrozenBatchNorm2d_init n =
     (let t = \<lparr>shape = [n], dtype = torch_float32\<rparr>
      in \<lparr>buffers = [(''weight'', t), (''bias'', t), (''running_mean'', t), (''running_var'', t)]\<rparr>)"

text \<open>
  What \<open>_load_from_state_dict\<close> reads and mutates: the state dictionary (ordered, with
  distinct keys) and the three lists that collect the outcome.
\<close>

datatype load_error_msg = size_mismatch string

record load_state =
  state_dict :: "(string \<times> Tensor) list"
  missing_keys :: "string list"
  unexpected_keys :: "string list"
  error_msgs :: "load_error_msg list"

text \<open>
  The library's \<open>nn.Module._load_from_state_dict\<close>, which the layer calls through
  \<open>super()\<close> (the argument \<open>prefix\<close> is written \<open>pfx\<close>), as it runs for a module
  whose local state is its buffers (no parameters, no
  submodules, no hooks, no extra state of its own). First the loop over the local state: a
  buffer whose key is in the dictionary is copied from it when the shapes agree (a
  one-element vector is first unwrapped for a scalar buffer) and reported as a size
  mismatch otherwise; a buffer whose key is absent is reported missing under \<open>strict\<close>.
  The copy changes element values only, which the model does not hold.
\<close>

fun load_local_state ::
  "string \<Rightarrow> bool \<Rightarrow> (string \<times> Tensor) list \<Rightarrow> load_state \<Rightarrow> error + load_state" where
  "load_local_state pfx strict [] st = Inr st"
| "load_local_state pfx strict ((name, param) # rest) st =
     (let key = pfx @ name in
      case map_of (state_dict st) key of
        None \<Rightarrow>
          load_local_state pfx strict rest
            (if strict then st\<lparr>missing_keys := missing_keys st @ [key]\<rparr> else st)
      | Some input_param \<Rightarrow>
          (case (if shape param = [] \<and> length (shape input_param) = 1
                 then index_0 input_param else Inr input_param) of
             Inl e \<Rightarrow> Inl e
           | Inr input_param1 \<Rightarrow>
               load_local_state pfx strict rest
                 (if shape input_param1 \<noteq> shape param
                  then st\<lparr>error_msgs := error_msgs st @ [size_mismatch key]\<rparr>
                  else st)))"

text \<open>
  Then, under \<open>strict\<close>, the extra-state key is unexpected when present, and so is every
  key of the dictionary that starts with the prefix and whose next component (up to the
  first dot) names nothing in the local state.
\<close>

definition is_unexpected :: "string \<Rightarrow> string list \<Rightarrow> string \<Rightarrow> bool" where
  "is_unexpected pfx local_names key =
     (prefix pfx key \<and> key \<noteq> pfx @ ''_extra_state'' \<and>
      takeWhile (\<lambda>c. c \<noteq> CHR ''.'') (drop (length pfx) key) \<notin> set local_names)"

definition Module_load_from_state_dict ::
  "(string \<times> Tensor) list \<Rightarrow> load_state \<Rightarrow> string \<Rightarrow> bool \<Rightarrow> error + load_state" where
  "Module_load_from_state_dict local_state st pfx strict =
     (case load_local_state pfx strict local_state st of
        Inl e \<Rightarrow> Inl e
      | Inr st1 \<Rightarrow>
          (let keys = map fst (state_dict st1);
               extra_state_key = pfx @ ''_extra_state'';
               st2 = (if strict \<and> extra_state_key \<in> set keys
                      then st1\<lparr>unexpected_keys := unexpected_keys st1 @ [extra_state_key]\<rparr>
                      else st1)
           in
           Inr (if strict
                then st2\<lparr>unexpected_keys := unexpected_keys st2 @
                            filter (is_unexpected pfx (map fst local_state)) keys\<rparr>
                else st2)))"

text \<open>
  \<open>FrozenBatchNorm2d._load_from_state_dict\<close>: the entry of the tracking counter is deleted
  from the dictionary it was given, then the inherited method runs on that dictionary.
  (\<open>local_metadata\<close> is handed on and not read.)
\<close>

definition FrozenBatchNorm2d_load_from_state_dict ::
  "FrozenBatchNorm2d \<Rightarrow> load_state \<Rightarrow> string \<Rightarrow> bool \<Rightarrow> error + load_state" where
  "FrozenBatchNorm2d_load_from_state_dict self st pfx strict =
     (let num_batches_tracked_key = pfx @ ''num_batches_tracked'';
          st1 = (if num_batches_tracked_key \<in> set (map fst (state_dict st))
                 then st\<lparr>state_dict := AList.delete num_batches_tracked_key (state_dict st)\<rparr>
                 else st)
      in Module_load_from_state_dict (buffers self) st1 pfx strict)"

text \<open>
  The library's \<open>load_state_dict\<close> for a module without submodules: it copies the
  dictionary, runs the module's \<open>_load_from_state_dict\<close> with an empty prefix (always in
  strict mode, so that the lists are filled), and raises when an error message was
  collected, or under \<open>strict\<close> when a key is missing or unexpected. The first argument is
  the module's \<open>_load_from_state_dict\<close>.
\<close>

definition load_state_dict ::
  "(load_state \<Rightarrow> string \<Rightarrow> bool \<Rightarrow> error + load_state) \<Rightarrow> (string \<times> Tensor) list \<Rightarrow> bool \<Rightarrow>
   error + string list \<times> string list" where
  "load_state_dict load_from_state_dict sd strict =
     (case load_from_state_dict
             \<lparr>state_dict = sd, missing_keys = [], unexpected_keys = [], error_msgs = []\<rparr>
             [] True of
        Inl e \<Rightarrow> Inl e
      | Inr st \<Rightarrow>
          if error_msgs st \<noteq> [] \<or> (strict \<and> (unexpected_keys st \<noteq> [] \<or> missing_keys st \<noteq> []))
          then Inl RuntimeError
          else Inr (missing_keys st, unexpected_keys st))"

section \<open>Properties\<close>

subsection \<open>What the tensor operators return\<close>

lemma F_pad_4d:
  assumes "F_pad x (a, b, c, d) = Inr x1" and "shape x = [n0, n1, h, w]"
  shows "shape x1 = [n0, n1, nat (int h + c + d), nat (int w + a + b)]
         \<and> 0 \<le> int h + c + d \<and> 0 \<le> int w + a + b \<and> dtype x1 = dtype x"
  using assms
  by (auto simp: F_pad_def pad_dim_def Let_def split: if_splits sum.splits)

lemma unfold_Inr:
  assumes "unfold x i k s = Inr y"
  shows "i < length (shape x) \<and> 0 \<le> k \<and> k \<le> int (shape x ! i) \<and> 0 < s
         \<and> shape y = (shape x)[i := nat ((int (shape x ! i) - k) div s + 1)] @ [nat k]
         \<and> dtype y = dtype x"
  using assms
  by (auto simp: unfold_def Let_def split: if_splits)

lemma permute_6d:
  assumes "shape x = [a0, a1, a2, a3, a4, a5]"
  shows "permute x [0, 4, 5, 1, 2, 3] = Inr (x\<lparr>shape := [a0, a4, a5, a1, a2, a3]\<rparr>)"
  using assms by (simp add: permute_def Let_def)

lemma view_patches:
  assumes "view x [int b, - 1, int p, int q] = Inr y"
  shows "0 < b \<and> 0 < p \<and> 0 < q \<and> shape y = [b, numel x div (b * p * q), p, q] \<and> dtype y = dtype x"
  using assms
proof -
  have ne: "int b \<noteq> - 1" "int p \<noteq> - 1" "int q \<noteq> - 1" by simp_all
  have pos: "0 < int b * (int p * int q)" and m: "int (numel x) mod (int b * (int p * int q)) = 0"
    and sh: "shape y = [b, nat (int (numel x) div (int b * (int p * int q))), p, q]" and dt: "dtype y = dtype x"
    using assms ne by (auto simp: view_def Let_def split: if_splits)
  from pos have "0 < b * (p * q)" by (metis of_nat_0_less_iff of_nat_mult)
  hence b: "0 < b" "0 < p" "0 < q" by simp_all
  have "int (numel x) div (int b * (int p * int q)) = int (numel x div (b * p * q))"
    by (simp add: zdiv_int mult.assoc)
  with sh b dt show ?thesis by simp
qed


lemma extract_image_patches_Inr:
  assumes r: "extract_image_patches x k s d = Inr y" and sx: "shape x = [b, c, h, w]"
  shows "0 < s \<and> 0 \<le> k \<and> 0 < b \<and>
         shape y = [b, nat (k * k) * c,
                    windows (int h + pad_amount w k s d) k s,
                    windows (int w + pad_amount h k s d) k s]"
proof -
  have s0: "s \<noteq> 0" using r sx
    by (auto simp: extract_image_patches_def ceil_div_def split: if_splits)
  define pr where "pr = pad_amount h k s d"
  define pc where "pc = pad_amount w k s d"
  obtain x1 p1 p2 p3 where
    1: "F_pad x (pr div 2, pr - pr div 2, pc div 2, pc - pc div 2) = Inr x1" and
    2: "unfold x1 2 k s = Inr p1" and
    3: "unfold p1 3 k s = Inr p2" and
    4: "permute p2 [0, 4, 5, 1, 2, 3] = Inr p3" and
    5: "view p3 [int b, - 1, int (shape p3 ! (length (shape p3) - 2)),
                 int (shape p3 ! (length (shape p3) - 1))] = Inr y"
    using r sx s0
    by (auto simp: extract_image_patches_def ceil_div_def Let_def contiguous_def
        pr_def pc_def pad_amount_def split: sum.splits)
  have hp: "int h + (pc div 2 + (pc - pc div 2)) = int h + pc"
    and wp: "int w + (pr div 2 + (pr - pr div 2)) = int w + pr" by simp_all
  from F_pad_4d[OF 1 sx] have s1: "shape x1 = [b, c, nat (int h + pc), nat (int w + pr)]"
    and h0: "0 \<le> int h + pc" and w0: "0 \<le> int w + pr"
    by (simp_all add: add.assoc)
  from unfold_Inr[OF 2] s1 h0 have k0: "0 \<le> k" and sp: "0 < s"
    and s2: "shape p1 = [b, c, windows (int h + pc) k s, nat (int w + pr), nat k]"
    by (simp_all add: windows_def)
  from unfold_Inr[OF 3] s2 w0 have
    s3: "shape p2 = [b, c, windows (int h + pc) k s, windows (int w + pr) k s, nat k, nat k]"
    by (simp add: windows_def)
  from 4 permute_6d[OF s3] have
    s4: "shape p3 = [b, nat k, nat k, c, windows (int h + pc) k s, windows (int w + pr) k s]"
    by simp
  from 5 s4 have 6: "view p3 [int b, - 1, int (windows (int h + pc) k s),
      int (windows (int w + pr) k s)] = Inr y" by simp
  from view_patches[OF 6] have b0: "0 < b" and p0: "0 < windows (int h + pc) k s"
    and q0: "0 < windows (int w + pr) k s"
    and sy: "shape y = [b, numel p3 div (b * windows (int h + pc) k s * windows (int w + pr) k s),
        windows (int h + pc) k s, windows (int w + pr) k s]" by simp_all
  have "numel p3 = (nat k * nat k * c) * (b * windows (int h + pc) k s * windows (int w + pr) k s)"
    by (simp add: numel_def s4)
  hence "numel p3 div (b * windows (int h + pc) k s * windows (int w + pr) k s) = nat k * nat k * c"
    using b0 p0 q0 by simp
  moreover have "nat k * nat k = nat (k * k)" using k0 by (simp add: nat_mult_distrib)
  ultimately show ?thesis using sy sp k0 b0 by (simp add: pr_def pc_def)
qed


lemma pad_dim_halves:
  assumes "0 \<le> int n + p"
  shows "pad_dim n (p div 2) (p - p div 2) = Inr (nat (int n + p))"
proof -
  have a: "\<not> (p div 2 < 0 \<and> int n + p div 2 < 0)" using assms by linarith
  have b: "\<not> (p - p div 2 < 0 \<and> int n + min (p div 2) 0 + (p - p div 2) < 0)"
    using assms by linarith
  have c: "int n + p div 2 + (p - p div 2) = int n + p" by simp
  have d: "\<not> int n + p < 0" using assms by simp
  show ?thesis unfolding pad_dim_def c by (simp only: a b d if_False)
qed

lemma extract_image_patches_returns:
  assumes sx: "shape x = [b, c, h, w]" and b0: "0 < b" and s0: "0 < s" and k0: "0 \<le> k"
    and hk: "k \<le> int h + pad_amount w k s d" and wk: "k \<le> int w + pad_amount h k s d"
  shows "extract_image_patches x k s d =
         Inr (x\<lparr>shape := [b, nat (k * k) * c,
                    windows (int h + pad_amount w k s d) k s,
                    windows (int w + pad_amount h k s d) k s]\<rparr>)"
proof -
  define pr where "pr = pad_amount h k s d"
  define pc where "pc = pad_amount w k s d"
  define H where "H = windows (int h + pc) k s"
  define W where "W = windows (int w + pr) k s"
  have h0: "0 \<le> int h + pc" and w0: "0 \<le> int w + pr"
    using hk wk k0 by (simp_all add: pr_def pc_def)
  have 1: "F_pad x (pr div 2, pr - pr div 2, pc div 2, pc - pc div 2)
           = Inr (x\<lparr>shape := [b, c, nat (int h + pc), nat (int w + pr)]\<rparr>)"
    by (simp add: F_pad_def Let_def sx pad_dim_halves[OF h0] pad_dim_halves[OF w0])
  have 2: "unfold (x\<lparr>shape := [b, c, nat (int h + pc), nat (int w + pr)]\<rparr>) 2 k s
           = Inr (x\<lparr>shape := [b, c, H, nat (int w + pr), nat k]\<rparr>)"
    using hk k0 s0 h0 by (simp add: unfold_def Let_def H_def windows_def pc_def)
  have 3: "unfold (x\<lparr>shape := [b, c, H, nat (int w + pr), nat k]\<rparr>) 3 k s
           = Inr (x\<lparr>shape := [b, c, H, W, nat k, nat k]\<rparr>)"
    using wk k0 s0 w0 by (simp add: unfold_def Let_def W_def windows_def pr_def)
  have 4: "permute (x\<lparr>shape := [b, c, H, W, nat k, nat k]\<rparr>) [0, 4, 5, 1, 2, 3]
           = Inr (x\<lparr>shape := [b, nat k, nat k, c, H, W]\<rparr>)"
    by (simp add: permute_def Let_def)
  have Hpos: "0 < H" using hk s0 by (simp add: H_def windows_def pc_def pos_imp_zdiv_nonneg_iff)
  have Wpos: "0 < W" using wk s0 by (simp add: W_def windows_def pr_def pos_imp_zdiv_nonneg_iff)
  define N where "N = int b * (int H * int W)"
  define C where "C = nat (k * k) * c"
  have f1: "filter (\<lambda>v. v = - 1) [int b, - 1, int H, int W] = [- 1]"
    and f2: "filter (\<lambda>v. v \<noteq> - 1) [int b, - 1, int H, int W] = [int b, int H, int W]"
    by simp_all
  have pl: "prod_list [int b, int H, int W] = N" by (simp add: N_def)
  have n: "int (numel (x\<lparr>shape := [b, nat k, nat k, c, H, W]\<rparr>)) = int C * N"
    using k0 by (simp add: numel_def nat_mult_distrib N_def C_def)
  have pos: "0 < N" using b0 Hpos Wpos by (simp add: N_def)
  have md: "int C * N mod N = 0" "nat (int C * N div N) = C" using pos by simp_all
  have 5: "view (x\<lparr>shape := [b, nat k, nat k, c, H, W]\<rparr>) [int b, - 1, int H, int W]
           = Inr (x\<lparr>shape := [b, C, H, W]\<rparr>)"
    unfolding view_def Let_def f1 f2 pl n md using pos by simp
  have pa: "(- ((- int h) div s) - 1) * s + (k - 1) * d + 1 - int h = pr"
    "(- ((- int w) div s) - 1) * s + (k - 1) * d + 1 - int w = pc"
    by (simp_all add: pr_def pc_def pad_amount_def)
  show ?thesis
    unfolding extract_image_patches_def ceil_div_def sx Let_def contiguous_def
    using s0 by (simp add: pa 1 2 3 4[unfolded One_nat_def] 5 C_def H_def[symmetric] W_def[symmetric] pr_def[symmetric] pc_def[symmetric])
qed

text \<open>
  With dilation 1 the padded size holds exactly \<open>ceil(n / stride)\<close> windows, and on a
  square input, where both padding amounts agree, the extraction returns a grid of that size.
\<close>

lemma windows_same_padding:
  assumes "0 < s"
  shows "windows (int n + pad_amount n k s 1) k s = nat (- ((- int n) div s))"
proof -
  have "int n + pad_amount n k s 1 - k = (- ((- int n) div s) - 1) * s"
    by (simp add: pad_amount_def algebra_simps)
  moreover have "(- ((- int n) div s) - 1) * s div s = - ((- int n) div s) - 1"
    using assms by simp
  ultimately show ?thesis by (simp add: windows_def)
qed

lemma ceil_pos:
  assumes "0 < s" "0 < n"
  shows "1 \<le> - ((- int n) div s)"
proof -
  have "(- int n) div s < 0" using assms by (simp add: div_neg_pos_less0)
  thus ?thesis by simp
qed

lemma extract_image_patches_square:
  assumes sx: "shape x = [b, c, n, n]" and b0: "0 < b" and n0: "0 < n"
    and s0: "0 < s" and k0: "0 \<le> k"
  shows "extract_image_patches x k s 1 =
         Inr (x\<lparr>shape := [b, nat (k * k) * c, nat (- ((- int n) div s)), nat (- ((- int n) div s))]\<rparr>)"
proof -
  have "int n + pad_amount n k s 1 = (- ((- int n) div s) - 1) * s + k"
    by (simp add: pad_amount_def algebra_simps)
  moreover have "0 \<le> (- ((- int n) div s) - 1) * s"
    using ceil_pos[OF s0 n0] s0 by simp
  ultimately have kn: "k \<le> int n + pad_amount n k s 1" by simp
  show ?thesis
    using extract_image_patches_returns[OF sx b0 s0 k0 kn kn]
    by (simp add: windows_same_padding[OF s0])
qed

subsection \<open>The patch backbone\<close>

text \<open>
  C1. The claim is that the output grid is \<open>(ceil(h / stride), ceil(w / stride))\<close> also
  when \<open>h\<close> differs from \<open>w\<close>. On a \<open>3 \<times> 4\<close> input with kernel 3, stride 2 and
  dilation 1 the extraction returns a \<open>1 \<times> 2\<close> grid, while \<open>ceil(3 / 2) = 2\<close>: the amount
  computed from the height is handed to \<open>F.pad\<close> in the position that pads the width, and
  the other way round.
\<close>

theorem extract_image_patches_non_square:
  "extract_image_patches \<lparr>shape = [1, 3, 3, 4], dtype = torch_float32\<rparr> 3 2 1
     = Inr \<lparr>shape = [1, 27, 1, 2], dtype = torch_float32\<rparr>
   \<and> ceil_div 3 2 = Inr 2 \<and> ceil_div 4 2 = Inr 2"
  by (simp add: extract_image_patches_def ceil_div_def F_pad_def pad_dim_def unfold_def
      permute_def contiguous_def view_def numel_def Let_def)

text \<open>
  C3. Whenever the patch backbone's forward returns, the mask of its output is the mask of
  its input, whatever that mask is; nothing is resized.
\<close>

theorem PatchBackbone_forward_mask:
  "PatchBackbone_forward self tensor_list = Inr output \<Longrightarrow> mask output = mask tensor_list"
  by (auto simp: PatchBackbone_forward_def split: sum.splits)

lemma PatchBackbone_forward_stride_2:
  "PatchBackbone_forward (PatchBackbone_init 3 2 1)
     \<lparr>tensors = \<lparr>shape = [1, 3, 4, 4], dtype = torch_float32\<rparr>,
      mask = Some \<lparr>shape = [1, 4, 4], dtype = torch_bool\<rparr>\<rparr>
   = Inr \<lparr>tensors = \<lparr>shape = [1, 27, 2, 2], dtype = torch_float32\<rparr>,
          mask = Some \<lparr>shape = [1, 4, 4], dtype = torch_bool\<rparr>\<rparr>"
  by (simp add: PatchBackbone_forward_def PatchBackbone_init_def extract_image_patches_square)

text \<open>
  With stride 2 a \<open>4 \<times> 4\<close> input gives a \<open>2 \<times> 2\<close> feature map, and the \<open>4 \<times> 4\<close> mask
  is handed on as it is.
\<close>

theorem PatchBackbone_forward_mask_witness:
  "PatchBackbone_forward (PatchBackbone_init 3 2 1)
     \<lparr>tensors = \<lparr>shape = [1, 3, 4, 4], dtype = torch_float32\<rparr>,
      mask = Some \<lparr>shape = [1, 4, 4], dtype = torch_bool\<rparr>\<rparr>
   = Inr \<lparr>tensors = \<lparr>shape = [1, 27, 2, 2], dtype = torch_float32\<rparr>,
          mask = Some \<lparr>shape = [1, 4, 4], dtype = torch_bool\<rparr>\<rparr>
   \<and> mask \<lparr>tensors = \<lparr>shape = [1, 27, 2, 2], dtype = torch_float32\<rparr>,
            mask = Some \<lparr>shape = [1, 4, 4], dtype = torch_bool\<rparr>\<rparr>
     = mask \<lparr>tensors = \<lparr>shape = [1, 3, 4, 4], dtype = torch_float32\<rparr>,
            mask = Some \<lparr>shape = [1, 4, 4], dtype = torch_bool\<rparr>\<rparr>"
  using PatchBackbone_forward_mask[OF PatchBackbone_forward_stride_2] PatchBackbone_forward_stride_2 by simp

text \<open>
  C4, as amended. Whenever the forward of a patch backbone built with kernel \<open>k\<close> returns
  on an input with \<open>c\<close> channels, the output has \<open>k^2 * c\<close> channels. The module reports
  \<open>k^2 * 3\<close> channels, which is the output's channel count when the input has 3 channels.
\<close>

theorem PatchBackbone_channels:
  assumes "PatchBackbone_forward (PatchBackbone_init k s d) tensor_list = Inr output"
    and "shape (tensors tensor_list) = [b, c, h, w]"
  shows "int (shape (tensors output) ! 1) = k ^ 2 * int c
         \<and> pb_num_channels (PatchBackbone_init k s d) = k ^ 2 * 3
         \<and> (c = 3 \<longrightarrow> pb_num_channels (PatchBackbone_init k s d) = int (shape (tensors output) ! 1))"
proof -
  from assms(1) have e: "extract_image_patches (tensors tensor_list) k s d = Inr (tensors output)"
    by (auto simp: PatchBackbone_forward_def PatchBackbone_init_def split: sum.splits)
  from extract_image_patches_Inr[OF e assms(2)] have k0: "0 \<le> k"
    and "shape (tensors output) ! 1 = nat (k * k) * c" by simp_all
  hence "int (shape (tensors output) ! 1) = k ^ 2 * int c" by (simp add: power2_eq_square)
  thus ?thesis by (simp add: PatchBackbone_init_def)
qed

text \<open>
  The claim as stated fails on a one-channel input: with kernel 3 the output has 9
  channels, the module reports 27, and 27 is not \<open>3^2 * 1\<close>.
\<close>

theorem PatchBackbone_channels_grayscale:
  "PatchBackbone_forward (PatchBackbone_init 3 1 1)
     \<lparr>tensors = \<lparr>shape = [1, 1, 4, 4], dtype = torch_float32\<rparr>, mask = ()\<rparr>
   = Inr \<lparr>tensors = \<lparr>shape = [1, 9, 4, 4], dtype = torch_float32\<rparr>, mask = ()\<rparr>
   \<and> pb_num_channels (PatchBackbone_init 3 1 1) = 27
   \<and> pb_num_channels (PatchBackbone_init 3 1 1) \<noteq> 3 ^ 2 * 1"
  by (simp add: PatchBackbone_forward_def PatchBackbone_init_def extract_image_patches_square)

lemma PatchBackbone_forward_rgb:
  "PatchBackbone_forward (PatchBackbone_init 3 2 1)
     \<lparr>tensors = \<lparr>shape = [2, 3, 5, 5], dtype = torch_float32\<rparr>, mask = ()\<rparr>
   = Inr \<lparr>tensors = \<lparr>shape = [2, 27, 3, 3], dtype = torch_float32\<rparr>, mask = ()\<rparr>"
  by (simp add: PatchBackbone_forward_def PatchBackbone_init_def extract_image_patches_square)

theorem PatchBackbone_channels_witness:
  "PatchBackbone_forward (PatchBackbone_init 3 2 1)
     \<lparr>tensors = \<lparr>shape = [2, 3, 5, 5], dtype = torch_float32\<rparr>, mask = ()\<rparr>
   = Inr \<lparr>tensors = \<lparr>shape = [2, 27, 3, 3], dtype = torch_float32\<rparr>, mask = ()\<rparr>
   \<and> int ([2, 27, 3, 3] ! 1) = 3 ^ 2 * int 3
   \<and> pb_num_channels (PatchBackbone_init 3 2 1) = 27"
  using PatchBackbone_channels[OF PatchBackbone_forward_rgb, of 2 3 5 5] PatchBackbone_forward_rgb by simp

subsection \<open>The base feature-extraction wrapper\<close>

text \<open>
  The mask that \<open>forward\<close> pairs with a feature map \<open>x\<close>: the batch size of the input mask
  followed by the last two sizes of \<open>x\<close>. The loop keeps this for every entry of \<open>out\<close>,
  and \<open>out\<close> ends with exactly the keys of \<open>xs\<close>.
\<close>

lemma set_update_subset: "set (AList.update k v al) \<subseteq> insert (k, v) (set al)"
  by (induction al) (auto simp: AList.update.simps)

lemma resized_mask_shape:
  assumes i: "F_interpolate (float (index_None m)) (last_two (shape x)) = Inr r"
    and z: "index_0 (to_dtype r torch_bool) = Inr mask1"
  shows "tl (shape mask1) = last_two (shape x) \<and> dtype mask1 = torch_bool \<and>
         (2 \<le> length (shape x) \<longrightarrow>
            length (shape mask1) = 3 \<and> last_two (shape mask1) = last_two (shape x))"
proof -
  from i have len: "int (length (last_two (shape x))) = int (length (shape m)) - 1"
    and sr: "shape r = take 2 (1 # shape m) @ last_two (shape x)"
    by (auto simp: F_interpolate_def float_def to_dtype_def index_None_def Let_def
        split: if_splits)
  from i have "length (shape m) \<noteq> 0 \<and> length (shape m) \<noteq> 1"
    by (auto simp: F_interpolate_def float_def to_dtype_def index_None_def Let_def
        split: if_splits)
  then obtain B rest0 rest where m: "shape m = B # rest0 # rest"
    by (cases "shape m"; cases "tl (shape m)") auto
  from sr m have sr': "shape r = 1 # B # last_two (shape x)" by simp
  from z sr' have s1: "shape mask1 = B # last_two (shape x)" and d1: "dtype mask1 = torch_bool"
    by (auto simp: index_0_def to_dtype_def split: list.splits if_splits)
  have "2 \<le> length (shape x) \<Longrightarrow> length (last_two (shape x)) = 2"
    by (simp add: last_two_def)
  with s1 d1 show ?thesis by (auto simp: last_two_def)
qed

lemma forward_loop_masks:
  assumes "forward_loop m_opt xs acc = Inr out"
    and "\<forall>(name, nt) \<in> set acc. (name, tensors nt) \<in> S \<and> (\<exists>m. mask nt = Some m \<and> tl (shape m) = last_two (shape (tensors nt)) \<and> dtype m = torch_bool \<and>
         (2 \<le> length (shape (tensors nt)) \<longrightarrow>
            length (shape m) = 3 \<and> last_two (shape m) = last_two (shape (tensors nt))))"
    and "set xs \<subseteq> S"
  shows "\<forall>(name, nt) \<in> set out. (name, tensors nt) \<in> S \<and> (\<exists>m. mask nt = Some m \<and> tl (shape m) = last_two (shape (tensors nt)) \<and> dtype m = torch_bool \<and>
         (2 \<le> length (shape (tensors nt)) \<longrightarrow>
            length (shape m) = 3 \<and> last_two (shape m) = last_two (shape (tensors nt))))"
  using assms
proof (induction xs arbitrary: acc)
  case Nil
  then show ?case by simp
next
  case (Cons a xs)
  obtain name x where a: "a = (name, x)" by (cases a)
  from Cons.prems(1) a obtain m r mask1 where m: "m_opt = Some m"
    and i: "F_interpolate (float (index_None m)) (last_two (shape x)) = Inr r"
    and z: "index_0 (to_dtype r torch_bool) = Inr mask1"
    and rest: "forward_loop m_opt xs (AList.update name \<lparr>tensors = x, mask = Some mask1\<rparr> acc) = Inr out"
    by (auto split: option.splits sum.splits)
  have inS: "(name, x) \<in> S" using Cons.prems(3) a by simp
  have "\<forall>(name, nt) \<in> set (AList.update name \<lparr>tensors = x, mask = Some mask1\<rparr> acc).
          (name, tensors nt) \<in> S \<and> (\<exists>m. mask nt = Some m \<and> tl (shape m) = last_two (shape (tensors nt)) \<and> dtype m = torch_bool \<and>
         (2 \<le> length (shape (tensors nt)) \<longrightarrow>
            length (shape m) = 3 \<and> last_two (shape m) = last_two (shape (tensors nt))))"
    using set_update_subset[of name "\<lparr>tensors = x, mask = Some mask1\<rparr>" acc]
      Cons.prems(2) resized_mask_shape[OF i z] inS
    by fastforce
  from Cons.IH[OF rest this] Cons.prems(3) show ?case by simp
qed

lemma forward_loop_keys:
  "forward_loop m_opt xs acc = Inr out \<Longrightarrow> fst ` set out = fst ` set acc \<union> fst ` set xs"
proof (induction xs arbitrary: acc)
  case Nil
  then show ?case by simp
next
  case (Cons a xs)
  obtain name x where a: "a = (name, x)" by (cases a)
  from Cons.prems a obtain nt where
    rest: "forward_loop m_opt xs (AList.update name nt acc) = Inr out"
    by (auto split: option.splits sum.splits)
  from Cons.IH[OF rest] show ?case by (auto simp: a dom_update)
qed

text \<open>
  C2. Whenever the wrapper's forward returns, every returned stage is a stage of the wrapped
  network, paired with a boolean mask whose sizes after the batch size are the last two
  sizes of the stage's feature map; for a feature map with a height and a width (at least
  two dimensions) the mask is three-dimensional and its height and width are the feature
  map's.
\<close>

theorem BackboneBase_forward_mask_shape:
  assumes "BackboneBase_forward self tensor_list = Inr out" and "(name, nt) \<in> set out"
  shows "\<exists>xs m. body self (tensors tensor_list) = Inr xs \<and> fst ` set out = fst ` set xs \<and>
           (name, tensors nt) \<in> set xs \<and>
           mask nt = Some m \<and> dtype m = torch_bool \<and> tl (shape m) = last_two (shape (tensors nt)) \<and>
           (2 \<le> length (shape (tensors nt)) \<longrightarrow>
              length (shape m) = 3 \<and> last_two (shape m) = last_two (shape (tensors nt)))"
proof -
  from assms(1) obtain xs where b: "body self (tensors tensor_list) = Inr xs"
    and l: "forward_loop (mask tensor_list) xs [] = Inr out"
    by (auto simp: BackboneBase_forward_def split: sum.splits)
  from forward_loop_masks[OF l, of "set xs"] assms(2) forward_loop_keys[OF l] b
  show ?thesis by fastforce
qed

lemma BackboneBase_forward_resnet_stage:
  "BackboneBase_forward
     \<lparr>body = (\<lambda>t. Inr [(''0'', \<lparr>shape = [2, 2048, 3, 4], dtype = torch_float32\<rparr>)]),
      bb_num_channels = 2048,
      bb_backbone = \<lparr>named_parameters = [], net = ()\<rparr>\<rparr>
     \<lparr>tensors = \<lparr>shape = [2, 3, 96, 128], dtype = torch_float32\<rparr>,
      mask = Some \<lparr>shape = [2, 96, 128], dtype = torch_bool\<rparr>\<rparr>
   = Inr [(''0'', \<lparr>tensors = \<lparr>shape = [2, 2048, 3, 4], dtype = torch_float32\<rparr>,
                   mask = Some \<lparr>shape = [2, 3, 4], dtype = torch_bool\<rparr>\<rparr>)]"
  by (simp add: BackboneBase_forward_def F_interpolate_def float_def to_dtype_def
      index_None_def index_0_def last_two_def Let_def)

text \<open>A \<open>96 \<times> 128\<close> mask beside a \<open>3 \<times> 4\<close> feature map is resized to \<open>3 \<times> 4\<close>.\<close>

theorem BackboneBase_forward_mask_shape_witness:
  "BackboneBase_forward
     \<lparr>body = (\<lambda>t. Inr [(''0'', \<lparr>shape = [2, 2048, 3, 4], dtype = torch_float32\<rparr>)]),
      bb_num_channels = 2048,
      bb_backbone = \<lparr>named_parameters = [], net = ()\<rparr>\<rparr>
     \<lparr>tensors = \<lparr>shape = [2, 3, 96, 128], dtype = torch_float32\<rparr>,
      mask = Some \<lparr>shape = [2, 96, 128], dtype = torch_bool\<rparr>\<rparr>
   = Inr [(''0'', \<lparr>tensors = \<lparr>shape = [2, 2048, 3, 4], dtype = torch_float32\<rparr>,
                   mask = Some \<lparr>shape = [2, 3, 4], dtype = torch_bool\<rparr>\<rparr>)]
   \<and> last_two [2, 3, 4] = last_two [2, 2048, 3, 4::nat]"
  using BackboneBase_forward_mask_shape[OF BackboneBase_forward_resnet_stage,
      of "''0''" "\<lparr>tensors = \<lparr>shape = [2, 2048, 3, 4], dtype = torch_float32\<rparr>,
                   mask = Some \<lparr>shape = [2, 3, 4], dtype = torch_bool\<rparr>\<rparr>"]
    BackboneBase_forward_resnet_stage
  by simp

text \<open>
  C6. When the wrapped network returns at least one stage and the input has no mask, the
  forward raises \<open>AssertionError\<close> and returns nothing.
\<close>

theorem BackboneBase_forward_no_mask:
  assumes "body self (tensors tensor_list) = Inr xs" and "xs \<noteq> []" and "mask tensor_list = None"
  shows "BackboneBase_forward self tensor_list = Inl AssertionError"
  using assms by (cases xs) (auto simp: BackboneBase_forward_def)

theorem BackboneBase_forward_no_mask_witness:
  "BackboneBase_forward
     \<lparr>body = (\<lambda>t. Inr [(''0'', \<lparr>shape = [2, 2048, 3, 4], dtype = torch_float32\<rparr>)]),
      bb_num_channels = 2048,
      bb_backbone = \<lparr>named_parameters = [], net = ()\<rparr>\<rparr>
     \<lparr>tensors = \<lparr>shape = [2, 3, 96, 128], dtype = torch_float32\<rparr>, mask = None\<rparr>
   = Inl AssertionError"
  using BackboneBase_forward_no_mask[of
      "\<lparr>body = (\<lambda>t. Inr [(''0'', \<lparr>shape = [2, 2048, 3, 4], dtype = torch_float32\<rparr>)]),
        bb_num_channels = 2048,
        bb_backbone = \<lparr>named_parameters = [], net = ()\<rparr>\<rparr>"
      "\<lparr>tensors = \<lparr>shape = [2, 3, 96, 128], dtype = torch_float32\<rparr>, mask = None\<rparr>"
      "[(''0'', \<lparr>shape = [2, 2048, 3, 4], dtype = torch_float32\<rparr>)]"]
  by simp

text \<open>
  C7, as amended. After a construction that succeeds, every parameter keeps its name, and
  its gradient is enabled exactly when fine-tuning is on, the gradient was enabled before
  and the name contains one of the stage identifiers (the default four when none are
  given): the constructor only ever disables. So with fine-tuning off every gradient is
  disabled; with it on every parameter whose name contains no stage identifier is disabled;
  and when all gradients were enabled before, as in a freshly built network, the enabled
  parameters are exactly those whose name contains a stage identifier.
\<close>

theorem BackboneBase_init_requires_grad:
  assumes "BackboneBase_init getter backbone train_backbone num_channels return_interm_layers
             layers_used_opt = Inr self"
    and "layers_used = (case layers_used_opt of None \<Rightarrow> default_layers_used | Some l \<Rightarrow> l)"
  shows "named_parameters (bb_backbone self) =
           map (\<lambda>(name, requires_grad).
                  (name, train_backbone \<and> requires_grad \<and> (\<exists>layer \<in> layers_used. sublist layer name)))
               (named_parameters backbone)
         \<and> (\<not> train_backbone \<longrightarrow>
              (\<forall>(name, requires_grad) \<in> set (named_parameters (bb_backbone self)). \<not> requires_grad))
         \<and> (train_backbone \<longrightarrow>
              (\<forall>(name, requires_grad) \<in> set (named_parameters (bb_backbone self)).
                 requires_grad \<longrightarrow> (\<exists>layer \<in> layers_used. sublist layer name)))
         \<and> (train_backbone \<and> (\<forall>(name, requires_grad) \<in> set (named_parameters backbone). requires_grad) \<longrightarrow>
              (\<forall>(name, requires_grad) \<in> set (named_parameters (bb_backbone self)).
                 requires_grad \<longleftrightarrow> (\<exists>layer \<in> layers_used. sublist layer name)))"
proof -
  have f: "freeze_parameter train_backbone layers_used =
           (\<lambda>(name, requires_grad).
              (name, train_backbone \<and> requires_grad \<and> (\<exists>layer \<in> layers_used. sublist layer name)))"
    by (auto simp: freeze_parameter_def fun_eq_iff)
  from assms have 1: "named_parameters (bb_backbone self) =
           map (freeze_parameter train_backbone layers_used) (named_parameters backbone)"
    by (auto simp: BackboneBase_init_def Let_def split: sum.splits)
  show ?thesis unfolding 1 f by (auto simp: case_prod_beta)
qed

text \<open>
  The claim as stated fails for a parameter that was frozen before the construction: its
  name contains \<open>layer1\<close>, fine-tuning is on, and its gradient stays disabled.
\<close>

theorem BackboneBase_init_frozen_stage_parameter:
  "\<exists>self. BackboneBase_init (\<lambda>m r. Inr (\<lambda>t. Inr []))
       \<lparr>named_parameters = [(''layer1.0.conv1.weight'', False), (''conv1.weight'', True)], net = ()\<rparr>
       True 2048 False None = Inr self
     \<and> named_parameters (bb_backbone self)
       = [(''layer1.0.conv1.weight'', False), (''conv1.weight'', False)]
     \<and> ''layer1'' \<in> default_layers_used \<and> sublist ''layer1'' ''layer1.0.conv1.weight''"
  by (simp add: BackboneBase_init_def Let_def freeze_parameter_def default_layers_used_def
      sublist_Cons_right)

lemma BackboneBase_init_fresh_network:
  "\<exists>self. BackboneBase_init (\<lambda>m r. Inr (\<lambda>t. Inr []))
       \<lparr>named_parameters = [(''conv1.weight'', True), (''layer2.0.conv1.weight'', True)], net = ()\<rparr>
       True 2048 False (Some {''layer2''}) = Inr self
     \<and> named_parameters (bb_backbone self)
       = [(''conv1.weight'', False), (''layer2.0.conv1.weight'', True)]"
  by (simp add: BackboneBase_init_def Let_def freeze_parameter_def sublist_Cons_right)

theorem BackboneBase_init_requires_grad_witness:
  "\<exists>self. BackboneBase_init (\<lambda>m r. Inr (\<lambda>t. Inr []))
       \<lparr>named_parameters = [(''conv1.weight'', True), (''layer2.0.conv1.weight'', True)], net = ()\<rparr>
       True 2048 False (Some {''layer2''}) = Inr self
     \<and> named_parameters (bb_backbone self)
       = [(''conv1.weight'', False), (''layer2.0.conv1.weight'', True)]
     \<and> named_parameters (bb_backbone self)
       = map (\<lambda>(name, requires_grad).
                (name, True \<and> requires_grad \<and> (\<exists>layer \<in> {''layer2''}. sublist layer name)))
           [(''conv1.weight'', True), (''layer2.0.conv1.weight'', True)]"
proof -
  obtain self where s: "BackboneBase_init (\<lambda>m r. Inr (\<lambda>t. Inr []))
       \<lparr>named_parameters = [(''conv1.weight'', True), (''layer2.0.conv1.weight'', True)], net = ()\<rparr>
       True 2048 False (Some {''layer2''}) = Inr self"
    and p: "named_parameters (bb_backbone self)
       = [(''conv1.weight'', False), (''layer2.0.conv1.weight'', True)]"
    using BackboneBase_init_fresh_network by blast
  from BackboneBase_init_requires_grad[OF s, of "{''layer2''}"] s p show ?thesis
    by (intro exI[of _ self]) simp
qed

subsection \<open>The construction entry point\<close>

text \<open>
  C8. For a model kind other than \<open>detr\<close>, a backbone name other than \<open>n/a\<close>, \<open>patch\<close>
  and \<open>resnet50\<close> makes \<open>build_backbone\<close> raise \<open>NotImplementedError\<close>; for \<open>detr\<close>, a name
  the model catalog does not have makes it raise \<open>AttributeError\<close>. In both cases the
  result is the exception and no model.
\<close>

theorem build_backbone_unrecognized:
  "(args_model a \<noteq> ''detr'' \<and> args_backbone a \<notin> {''n/a'', ''patch'', ''resnet50''} \<longrightarrow>
      build_backbone E a =
        Inl (NotImplementedError (''Backbone '' @ args_backbone a @ '' not implemented'')))
   \<and> (args_model a = ''detr'' \<and> torchvision_models E (args_backbone a) = None \<longrightarrow>
      build_backbone E a = Inl AttributeError)"
  by (simp add: build_backbone_def Backbone_init_def Let_def)

theorem build_backbone_unrecognized_witness:
  "build_backbone
     \<lparr>torchvision_models = (\<lambda>name. None :: (bool list \<Rightarrow> bool \<Rightarrow> error + unit Module) option),
      is_main_process = True,
      IntermediateLayerGetter = (\<lambda>m r. Inr (\<lambda>t. Inr [])),
      build_position_encoding = (\<lambda>a. Inr ()),
      py_int = (\<lambda>s. Inl ValueError)\<rparr>
     \<lparr>args_model = ''perceiver'', args_backbone = ''vgg16'', args_lr_backbone = 0,
      args_masks = False, args_dilation = False, args_patch_kernel = 3, args_patch_stride = 1,
      args_patch_dilation = 1, args_interm_layer = None\<rparr>
   = Inl (NotImplementedError ''Backbone vgg16 not implemented'')
   \<and> build_backbone
     \<lparr>torchvision_models = (\<lambda>name. None :: (bool list \<Rightarrow> bool \<Rightarrow> error + unit Module) option),
      is_main_process = True,
      IntermediateLayerGetter = (\<lambda>m r. Inr (\<lambda>t. Inr [])),
      build_position_encoding = (\<lambda>a. Inr ()),
      py_int = (\<lambda>s. Inl ValueError)\<rparr>
     \<lparr>args_model = ''detr'', args_backbone = ''vgg16'', args_lr_backbone = 0,
      args_masks = False, args_dilation = False, args_patch_kernel = 3, args_patch_stride = 1,
      args_patch_dilation = 1, args_interm_layer = None\<rparr>
   = Inl AttributeError"
  using build_backbone_unrecognized[of
      "\<lparr>args_model = ''perceiver'', args_backbone = ''vgg16'', args_lr_backbone = 0,
      args_masks = False, args_dilation = False, args_patch_kernel = 3, args_patch_stride = 1,
      args_patch_dilation = 1, args_interm_layer = None\<rparr>"
      "\<lparr>torchvision_models = (\<lambda>name. None :: (bool list \<Rightarrow> bool \<Rightarrow> error + unit Module) option),
      is_main_process = True,
      IntermediateLayerGetter = (\<lambda>m r. Inr (\<lambda>t. Inr [])),
      build_position_encoding = (\<lambda>a. Inr ()),
      py_int = (\<lambda>s. Inl ValueError)\<rparr>"]
    build_backbone_unrecognized[of
      "\<lparr>args_model = ''detr'', args_backbone = ''vgg16'', args_lr_backbone = 0,
      args_masks = False, args_dilation = False, args_patch_kernel = 3, args_patch_stride = 1,
      args_patch_dilation = 1, args_interm_layer = None\<rparr>"
      "\<lparr>torchvision_models = (\<lambda>name. None :: (bool list \<Rightarrow> bool \<Rightarrow> error + unit Module) option),
      is_main_process = True,
      IntermediateLayerGetter = (\<lambda>m r. Inr (\<lambda>t. Inr [])),
      build_position_encoding = (\<lambda>a. Inr ()),
      py_int = (\<lambda>s. Inl ValueError)\<rparr>"]
  by simp

subsection \<open>Restoring the frozen normalization layer\<close>

text \<open>
  The inherited method leaves the dictionary as it is and adds to the unexpected keys only
  keys of the dictionary; the layer's own method is the inherited one run on the dictionary
  without the tracking counter.
\<close>

lemma load_local_state_frame:
  "load_local_state pfx strict ls st = Inr st' \<Longrightarrow>
   state_dict st' = state_dict st \<and> unexpected_keys st' = unexpected_keys st"
proof (induction ls arbitrary: st)
  case Nil
  then show ?case by simp
next
  case (Cons a ls)
  obtain name param where a: "a = (name, param)" by (cases a)
  from Cons.prems a obtain st1 where r: "load_local_state pfx strict ls st1 = Inr st'"
    and f: "state_dict st1 = state_dict st" "unexpected_keys st1 = unexpected_keys st"
    by (auto simp: Let_def split: option.splits sum.splits if_splits)
  from Cons.IH[OF r] f show ?case by simp
qed

lemma load_local_state_total:
  "\<forall>(name, param) \<in> set ls. shape param \<noteq> [] \<Longrightarrow> \<exists>st'. load_local_state pfx strict ls st = Inr st'"
proof (induction ls arbitrary: st)
  case Nil
  then show ?case by simp
next
  case (Cons a ls)
  obtain name param where a: "a = (name, param)" by (cases a)
  from Cons.prems a have p: "shape param \<noteq> []" and r: "\<forall>(name, param) \<in> set ls. shape param \<noteq> []"
    by auto
  show ?case using Cons.IH[OF r] p by (auto simp: a Let_def split: option.splits)
qed

lemma load_local_state_matching:
  "\<forall>(name, param) \<in> set ls. shape param \<noteq> [] \<and>
      (\<exists>t. map_of (state_dict st) (pfx @ name) = Some t \<and> shape t = shape param) \<Longrightarrow>
   load_local_state pfx strict ls st = Inr st"
  by (induction ls) (auto simp: Let_def)

lemma Module_load_from_state_dict_frame:
  "Module_load_from_state_dict ls st pfx strict = Inr st' \<Longrightarrow> state_dict st' = state_dict st"
  by (auto simp: Module_load_from_state_dict_def Let_def split: sum.splits if_splits
      dest: load_local_state_frame)

lemma Module_load_from_state_dict_unexpected:
  assumes "Module_load_from_state_dict ls st pfx strict = Inr st'"
  shows "unexpected_keys st' =
         unexpected_keys st
         @ (if strict \<and> pfx @ ''_extra_state'' \<in> set (map fst (state_dict st))
            then [pfx @ ''_extra_state''] else [])
         @ (if strict then filter (is_unexpected pfx (map fst ls)) (map fst (state_dict st))
            else [])"
proof -
  from assms obtain st1 where 1: "load_local_state pfx strict ls st = Inr st1"
    by (auto simp: Module_load_from_state_dict_def split: sum.splits)
  from load_local_state_frame[OF 1] have f: "state_dict st1 = state_dict st"
    "unexpected_keys st1 = unexpected_keys st" by simp_all
  from assms f show ?thesis
    unfolding Module_load_from_state_dict_def 1 Let_def
    by (auto split: if_splits)
qed

lemma delete_filter: "AList.delete k al = filter (\<lambda>e. fst e \<noteq> k) al"
  by (induction al) auto

lemma FrozenBatchNorm2d_load_delete:
  "FrozenBatchNorm2d_load_from_state_dict self st pfx strict =
   Module_load_from_state_dict (buffers self)
     (st\<lparr>state_dict := AList.delete (pfx @ ''num_batches_tracked'') (state_dict st)\<rparr>) pfx strict"
proof (cases "pfx @ ''num_batches_tracked'' \<in> fst ` set (state_dict st)")
  case True
  then show ?thesis by (simp add: FrozenBatchNorm2d_load_from_state_dict_def Let_def)
next
  case False
  hence "AList.delete (pfx @ ''num_batches_tracked'') (state_dict st) = state_dict st"
    by (rule delete_id)
  with False show ?thesis by (simp add: FrozenBatchNorm2d_load_from_state_dict_def Let_def)
qed

lemma FrozenBatchNorm2d_init_buffers:
  "\<forall>(name, param) \<in> set (buffers (FrozenBatchNorm2d_init n)). shape param \<noteq> []"
  by (simp add: FrozenBatchNorm2d_init_def Let_def)

lemma buffer_names_not_unexpected:
  assumes "k \<in> {''weight'', ''bias'', ''running_mean'', ''running_var''}"
  shows "\<not> is_unexpected [] [''weight'', ''bias'', ''running_mean'', ''running_var''] k"
  using assms by (auto simp: is_unexpected_def)

lemma FrozenBatchNorm2d_load_state_dict_ok:
  assumes buf: "\<forall>name \<in> {''weight'', ''bias'', ''running_mean'', ''running_var''}.
                  \<exists>t. map_of sd name = Some t \<and> shape t = [n]"
    and keys: "fst ` set sd \<subseteq>
                 {''weight'', ''bias'', ''running_mean'', ''running_var'', ''num_batches_tracked''}"
  shows "load_state_dict (FrozenBatchNorm2d_load_from_state_dict (FrozenBatchNorm2d_init n)) sd strict
         = Inr ([], [])"
proof -
  define sd' where "sd' = AList.delete ''num_batches_tracked'' sd"
  define st where "st = \<lparr>state_dict = sd', missing_keys = [], unexpected_keys = [], error_msgs = []\<rparr>"
  have m: "\<forall>(name, param) \<in> set (buffers (FrozenBatchNorm2d_init n)). shape param \<noteq> [] \<and>
      (\<exists>t. map_of (state_dict st) ([] @ name) = Some t \<and> shape t = shape param)"
    using buf by (simp add: FrozenBatchNorm2d_init_def Let_def st_def sd'_def)
  have l: "load_local_state [] True (buffers (FrozenBatchNorm2d_init n)) st = Inr st"
    by (rule load_local_state_matching[OF m])
  have "fst ` set sd' \<subseteq> fst ` set sd - {''num_batches_tracked''}"
    using delete_notin_dom[of "''num_batches_tracked''" sd]
      dom_delete_subset[of "''num_batches_tracked''" sd]
    unfolding sd'_def by blast
  with keys have k': "set (map fst sd') \<subseteq> {''weight'', ''bias'', ''running_mean'', ''running_var''}"
    unfolding set_map by blast
  hence e: "''_extra_state'' \<notin> set (map fst sd')" by auto
  have names: "map fst (buffers (FrozenBatchNorm2d_init n)) = [''weight'', ''bias'', ''running_mean'', ''running_var'']"
    by (simp add: FrozenBatchNorm2d_init_def Let_def)
  have f: "filter (is_unexpected [] [''weight'', ''bias'', ''running_mean'', ''running_var'']) (map fst sd') = []"
    unfolding filter_empty_conv using k' buffer_names_not_unexpected by blast
  have "FrozenBatchNorm2d_load_from_state_dict (FrozenBatchNorm2d_init n)
          \<lparr>state_dict = sd, missing_keys = [], unexpected_keys = [], error_msgs = []\<rparr> [] True = Inr st"
    unfolding FrozenBatchNorm2d_load_delete
    using l e f
    by (simp add: Module_load_from_state_dict_def Let_def names st_def[symmetric] sd'_def[symmetric])
       (simp add: st_def)
  thus ?thesis by (simp add: load_state_dict_def st_def)
qed

lemma tracking_key_not_extra_state: "pfx @ ''num_batches_tracked'' \<noteq> pfx @ ''_extra_state''"
  by simp

text \<open>
  C9. Restoring gives the same result whether the tracking counter is in the dictionary or
  has been removed from it; the counter's key is never added to the unexpected keys; and a
  strict \<open>load_state_dict\<close> of a dictionary that holds the four buffers in their shape,
  with or without the counter, succeeds with no missing and no unexpected key.
\<close>

theorem FrozenBatchNorm2d_load_tracking_counter:
  "FrozenBatchNorm2d_load_from_state_dict self st pfx strict
     = FrozenBatchNorm2d_load_from_state_dict self
         (st\<lparr>state_dict := AList.delete (pfx @ ''num_batches_tracked'') (state_dict st)\<rparr>) pfx strict
   \<and> (\<forall>st'. FrozenBatchNorm2d_load_from_state_dict self st pfx strict = Inr st' \<and>
            pfx @ ''num_batches_tracked'' \<notin> set (unexpected_keys st) \<longrightarrow>
            pfx @ ''num_batches_tracked'' \<notin> set (unexpected_keys st'))
   \<and> ((\<forall>name \<in> {''weight'', ''bias'', ''running_mean'', ''running_var''}.
          \<exists>t. map_of sd name = Some t \<and> shape t = [n]) \<and>
       fst ` set sd \<subseteq>
         {''weight'', ''bias'', ''running_mean'', ''running_var'', ''num_batches_tracked''} \<longrightarrow>
       load_state_dict (FrozenBatchNorm2d_load_from_state_dict (FrozenBatchNorm2d_init n)) sd strict
         = Inr ([], []))"
proof (intro conjI allI impI)
  show "FrozenBatchNorm2d_load_from_state_dict self st pfx strict
     = FrozenBatchNorm2d_load_from_state_dict self
         (st\<lparr>state_dict := AList.delete (pfx @ ''num_batches_tracked'') (state_dict st)\<rparr>) pfx strict"
    by (simp add: FrozenBatchNorm2d_load_delete delete_idem)
next
  fix st'
  assume a: "FrozenBatchNorm2d_load_from_state_dict self st pfx strict = Inr st' \<and>
            pfx @ ''num_batches_tracked'' \<notin> set (unexpected_keys st)"
  define sd' where "sd' = AList.delete (pfx @ ''num_batches_tracked'') (state_dict st)"
  have notin: "pfx @ ''num_batches_tracked'' \<notin> set (map fst sd')"
    unfolding sd'_def set_map by (rule delete_notin_dom)
  from a have "Module_load_from_state_dict (buffers self) (st\<lparr>state_dict := sd'\<rparr>) pfx strict = Inr st'"
    by (simp add: FrozenBatchNorm2d_load_delete sd'_def)
  from Module_load_from_state_dict_unexpected[OF this]
  have "set (unexpected_keys st') \<subseteq>
          set (unexpected_keys st) \<union> {pfx @ ''_extra_state''} \<union> set (map fst sd')"
    by (auto split: if_splits)
  with a notin tracking_key_not_extra_state[of pfx]
  show "pfx @ ''num_batches_tracked'' \<notin> set (unexpected_keys st')" by blast
next
  assume "(\<forall>name \<in> {''weight'', ''bias'', ''running_mean'', ''running_var''}.
          \<exists>t. map_of sd name = Some t \<and> shape t = [n]) \<and>
       fst ` set sd \<subseteq>
         {''weight'', ''bias'', ''running_mean'', ''running_var'', ''num_batches_tracked''}"
  thus "load_state_dict (FrozenBatchNorm2d_load_from_state_dict (FrozenBatchNorm2d_init n)) sd strict
         = Inr ([], [])"
    using FrozenBatchNorm2d_load_state_dict_ok by blast
qed

text \<open>
  The inherited method alone rejects the same dictionary under \<open>strict\<close>: the counter is
  an unexpected key for it.
\<close>

lemma Module_load_state_dict_rejects_counter:
  "load_state_dict (Module_load_from_state_dict (buffers (FrozenBatchNorm2d_init 64)))
     [(''weight'', \<lparr>shape = [64], dtype = torch_float32\<rparr>),
      (''bias'', \<lparr>shape = [64], dtype = torch_float32\<rparr>),
      (''running_mean'', \<lparr>shape = [64], dtype = torch_float32\<rparr>),
      (''running_var'', \<lparr>shape = [64], dtype = torch_float32\<rparr>),
      (''num_batches_tracked'', \<lparr>shape = [], dtype = torch_int64\<rparr>)] True
   = Inl RuntimeError"
  by (simp add: load_state_dict_def Module_load_from_state_dict_def FrozenBatchNorm2d_init_def
      Let_def is_unexpected_def)

theorem FrozenBatchNorm2d_load_tracking_counter_witness:
  "load_state_dict (FrozenBatchNorm2d_load_from_state_dict (FrozenBatchNorm2d_init 64))
     [(''weight'', \<lparr>shape = [64], dtype = torch_float32\<rparr>),
      (''bias'', \<lparr>shape = [64], dtype = torch_float32\<rparr>),
      (''running_mean'', \<lparr>shape = [64], dtype = torch_float32\<rparr>),
      (''running_var'', \<lparr>shape = [64], dtype = torch_float32\<rparr>),
      (''num_batches_tracked'', \<lparr>shape = [], dtype = torch_int64\<rparr>)] True
   = Inr ([], [])
   \<and> load_state_dict (FrozenBatchNorm2d_load_from_state_dict (FrozenBatchNorm2d_init 64))
     [(''weight'', \<lparr>shape = [64], dtype = torch_float32\<rparr>),
      (''bias'', \<lparr>shape = [64], dtype = torch_float32\<rparr>),
      (''running_mean'', \<lparr>shape = [64], dtype = torch_float32\<rparr>),
      (''running_var'', \<lparr>shape = [64], dtype = torch_float32\<rparr>)] True
   = Inr ([], [])"
  using FrozenBatchNorm2d_load_tracking_counter[where n = 64 and strict = True and sd =
      "[(''weight'', \<lparr>shape = [64], dtype = torch_float32\<rparr>),
      (''bias'', \<lparr>shape = [64], dtype = torch_float32\<rparr>),
      (''running_mean'', \<lparr>shape = [64], dtype = torch_float32\<rparr>),
      (''running_var'', \<lparr>shape = [64], dtype = torch_float32\<rparr>),
      (''num_batches_tracked'', \<lparr>shape = [], dtype = torch_int64\<rparr>)]"]
    FrozenBatchNorm2d_load_tracking_counter[where n = 64 and strict = True and sd =
      "[(''weight'', \<lparr>shape = [64], dtype = torch_float32\<rparr>),
      (''bias'', \<lparr>shape = [64], dtype = torch_float32\<rparr>),
      (''running_mean'', \<lparr>shape = [64], dtype = torch_float32\<rparr>),
      (''running_var'', \<lparr>shape = [64], dtype = torch_float32\<rparr>)]"]
  by simp

text \<open>
  C10. The layer's method, which always returns for a layer as constructed, leaves in the
  caller's dictionary exactly the entries whose key is not the counter's, in their order:
  the counter's key is gone and every other key maps to what it mapped to.
\<close>

theorem FrozenBatchNorm2d_load_deletes_in_place:
  "(\<exists>st'. FrozenBatchNorm2d_load_from_state_dict (FrozenBatchNorm2d_init n) st pfx strict = Inr st')
   \<and> (\<forall>st'. FrozenBatchNorm2d_load_from_state_dict self st pfx strict = Inr st' \<longrightarrow>
         state_dict st' = filter (\<lambda>e. fst e \<noteq> pfx @ ''num_batches_tracked'') (state_dict st)
         \<and> pfx @ ''num_batches_tracked'' \<notin> fst ` set (state_dict st')
         \<and> (\<forall>k. k \<noteq> pfx @ ''num_batches_tracked'' \<longrightarrow>
               map_of (state_dict st') k = map_of (state_dict st) k))"
proof (intro conjI allI impI)
  show "\<exists>st'. FrozenBatchNorm2d_load_from_state_dict (FrozenBatchNorm2d_init n) st pfx strict = Inr st'"
    using load_local_state_total[OF FrozenBatchNorm2d_init_buffers,
        where pfx = pfx and strict = strict and n1 = n and
          st = "st\<lparr>state_dict := AList.delete (pfx @ ''num_batches_tracked'') (state_dict st)\<rparr>"]
    by (auto simp: FrozenBatchNorm2d_load_delete Module_load_from_state_dict_def Let_def)
next
  fix st'
  assume "FrozenBatchNorm2d_load_from_state_dict self st pfx strict = Inr st'"
  hence d: "state_dict st' = AList.delete (pfx @ ''num_batches_tracked'') (state_dict st)"
    unfolding FrozenBatchNorm2d_load_delete
    by (auto dest: Module_load_from_state_dict_frame)
  show "state_dict st' = filter (\<lambda>e. fst e \<noteq> pfx @ ''num_batches_tracked'') (state_dict st)"
    by (simp add: d delete_filter)
  show "pfx @ ''num_batches_tracked'' \<notin> fst ` set (state_dict st')"
    unfolding d by (rule delete_notin_dom)
  fix k
  assume "k \<noteq> pfx @ ''num_batches_tracked''"
  thus "map_of (state_dict st') k = map_of (state_dict st) k" by (simp add: d)
qed

theorem FrozenBatchNorm2d_load_deletes_in_place_witness:
  "(\<exists>st'. FrozenBatchNorm2d_load_from_state_dict (FrozenBatchNorm2d_init 64)
       \<lparr>state_dict = [(''bn1.weight'', \<lparr>shape = [64], dtype = torch_float32\<rparr>),
                      (''bn1.num_batches_tracked'', \<lparr>shape = [], dtype = torch_int64\<rparr>),
                      (''conv1.weight'', \<lparr>shape = [64, 3, 7, 7], dtype = torch_float32\<rparr>)],
        missing_keys = [], unexpected_keys = [], error_msgs = []\<rparr> ''bn1.'' True = Inr st'
      \<and> state_dict st' = [(''bn1.weight'', \<lparr>shape = [64], dtype = torch_float32\<rparr>),
                          (''conv1.weight'', \<lparr>shape = [64, 3, 7, 7], dtype = torch_float32\<rparr>)])"
proof -
  let ?st = "\<lparr>state_dict = [(''bn1.weight'', \<lparr>shape = [64], dtype = torch_float32\<rparr>),
                      (''bn1.num_batches_tracked'', \<lparr>shape = [], dtype = torch_int64\<rparr>),
                      (''conv1.weight'', \<lparr>shape = [64, 3, 7, 7], dtype = torch_float32\<rparr>)],
        missing_keys = [], unexpected_keys = [], error_msgs = []\<rparr>"
  note t = FrozenBatchNorm2d_load_deletes_in_place[where n = 64 and st = ?st and pfx = "''bn1.''"
      and strict = True and self = "FrozenBatchNorm2d_init 64"]
  from t obtain st' where
    1: "FrozenBatchNorm2d_load_from_state_dict (FrozenBatchNorm2d_init 64) ?st ''bn1.'' True = Inr st'"
    by blast
  with t have "state_dict st' = filter (\<lambda>e. fst e \<noteq> ''bn1.'' @ ''num_batches_tracked'') (state_dict ?st)"
    by blast
  hence "state_dict st' = [(''bn1.weight'', \<lparr>shape = [64], dtype = torch_float32\<rparr>),
                          (''conv1.weight'', \<lparr>shape = [64, 3, 7, 7], dtype = torch_float32\<rparr>)]"
    by simp
  with 1 show ?thesis by blast
qed

subsection \<open>The identity variant\<close>

text \<open>
  C5, as amended. The identity variant returns its input unchanged, whatever the input is,
  and reports the channel count 3, which is the channel count of the input (and so of the
  output) when the input is a padded batch of 3-channel images.
\<close>

theorem NoBackbone_identity:
  "NoBackbone_forward NoBackbone_init x = x
   \<and> nb_num_channels NoBackbone_init = 3
   \<and> (shape (tensors tensor_list) = [b, c, h, w] \<and> c = 3 \<longrightarrow>
        nb_num_channels NoBackbone_init = int c
        \<and> nb_num_channels NoBackbone_init
            = int (shape (tensors (NoBackbone_forward NoBackbone_init tensor_list)) ! 1))"
  by (simp add: NoBackbone_forward_def NoBackbone_init_def nn_Identity_def)

text \<open>
  The claim as stated fails on a one-channel input: it comes back unchanged with its one
  channel, while the module reports 3.
\<close>

theorem NoBackbone_identity_grayscale:
  "NoBackbone_forward NoBackbone_init
     \<lparr>tensors = \<lparr>shape = [1, 1, 4, 4], dtype = torch_float32\<rparr>,
      mask = Some \<lparr>shape = [1, 4, 4], dtype = torch_bool\<rparr>\<rparr>
   = \<lparr>tensors = \<lparr>shape = [1, 1, 4, 4], dtype = torch_float32\<rparr>,
      mask = Some \<lparr>shape = [1, 4, 4], dtype = torch_bool\<rparr>\<rparr>
   \<and> nb_num_channels NoBackbone_init = 3
   \<and> nb_num_channels NoBackbone_init \<noteq> int ([1, 1, 4, 4] ! 1)"
  by (simp add: NoBackbone_forward_def NoBackbone_init_def nn_Identity_def)

text \<open>On a batch of two 3-channel images the reported count is the input's.\<close>

theorem NoBackbone_identity_witness:
  "NoBackbone_forward NoBackbone_init
     \<lparr>tensors = \<lparr>shape = [2, 3, 4, 5], dtype = torch_float32\<rparr>,
      mask = Some \<lparr>shape = [2, 4, 5], dtype = torch_bool\<rparr>\<rparr>
   = \<lparr>tensors = \<lparr>shape = [2, 3, 4, 5], dtype = torch_float32\<rparr>,
      mask = Some \<lparr>shape = [2, 4, 5], dtype = torch_bool\<rparr>\<rparr>
   \<and> nb_num_channels NoBackbone_init = int ([2, 3, 4, 5] ! 1)"
  using NoBackbone_identity[where b = 2 and c = 3 and h = 4 and w = 5
      and x = "\<lparr>tensors = \<lparr>shape = [2, 3, 4, 5], dtype = torch_float32\<rparr>,
                mask = Some \<lparr>shape = [2, 4, 5], dtype = torch_bool\<rparr>\<rparr>"
      and tensor_list = "\<lparr>tensors = \<lparr>shape = [2, 3, 4, 5], dtype = torch_float32\<rparr>,
                mask = Some \<lparr>shape = [2, 4, 5], dtype = torch_bool\<rparr>\<rparr>"]
  by simp

end
